theory Spec2Isabelle
  imports Main "HOL-Library.Word"
begin

unbundle bit_operations_syntax

section \<open>Pixels\<close>

text \<open>
  \<^verbatim>\<open>struct Pixel { uint32_t c; }\<close>: one packed 32-bit value; equality of pixels is
  equality of the packed word.  The four-channel constructor takes the channels in the
  order b, g, r, a.
\<close>

type_synonym Pixel = "32 word"

definition Pixel :: "8 word \<Rightarrow> 8 word \<Rightarrow> 8 word \<Rightarrow> 8 word \<Rightarrow> Pixel" where
  "Pixel b g r a =
     (push_bit 24 (ucast a) OR push_bit 16 (ucast r) OR push_bit 8 (ucast g) OR ucast b)"

definition fieldColor :: Pixel where
  "fieldColor = Pixel 0xf6 0xf9 0xfb 0x00"

definition ballColor :: Pixel where
  "ballColor = Pixel 0x51 0x3d 0x2c 0x00"

section \<open>Rectangles\<close>

text \<open>
  \<^verbatim>\<open>struct Rect { int x0, y0, x1, y1; }\<close>.  Coordinates are modelled as unbounded
  integers: the operations below only compare, take minima and maxima, and add or
  subtract one, and signed overflow (undefined in C++) is not reached for coordinates
  within a screen.  C++ integer division truncates towards zero, which \<open>cdiv2\<close> writes
  out for the divisor 2.
\<close>

record Rect =
  x0 :: int
  y0 :: int
  x1 :: int
  y1 :: int

definition cdiv2 :: "int \<Rightarrow> int" where
  "cdiv2 k = (if k < 0 then - ((- k) div 2) else k div 2)"

definition width :: "Rect \<Rightarrow> int" where
  "width r = x1 r - x0 r"

definition height :: "Rect \<Rightarrow> int" where
  "height r = y1 r - y0 r"

definition centerX :: "Rect \<Rightarrow> int" where
  "centerX r = x0 r + cdiv2 (width r)"

definition centerY :: "Rect \<Rightarrow> int" where
  "centerY r = y0 r + cdiv2 (height r)"

definition contains :: "Rect \<Rightarrow> int \<Rightarrow> int \<Rightarrow> bool" where
  "contains r x y = (x \<ge> x0 r \<and> x < x1 r \<and> y \<ge> y0 r \<and> y < y1 r)"

text \<open>\<^verbatim>\<open>Rect::add\<close> mutates the receiver; the model returns the new receiver.\<close>

definition add :: "Rect \<Rightarrow> Rect \<Rightarrow> Rect" where
  "add r other =
     \<lparr>x0 = min (x0 other) (x0 r), y0 = min (y0 other) (y0 r),
      x1 = max (x1 other) (x1 r), y1 = max (y1 other) (y1 r)\<rparr>"

section \<open>Clamping, shrinking and expanding against the screen\<close>

text \<open>
  \<^verbatim>\<open>Game::limit\<close>, \<^verbatim>\<open>Game::shrink\<close> and \<^verbatim>\<open>Game::expand\<close> read only the members
  \<^verbatim>\<open>width\<close> and \<^verbatim>\<open>height\<close> of the game, passed here as \<open>w\<close> and \<open>h\<close>.  The four
  assignments of \<open>limit\<close> run in order, so the last two see the new \<open>x0\<close> and \<open>y0\<close>.
  \<open>shrink\<close> and \<open>expand\<close> return their boolean together with the updated rectangle.
\<close>

definition limit :: "int \<Rightarrow> int \<Rightarrow> Rect \<Rightarrow> Rect" where
  "limit w h r =
     (let a = min (x1 r) (min w (max 0 (x0 r)));
          b = min (y1 r) (min h (max 0 (y0 r)));
          c = max a (min w (max 0 (x1 r)));
          d = max b (min h (max 0 (y1 r)))
      in \<lparr>x0 = a, y0 = b, x1 = c, y1 = d\<rparr>)"

definition shrink :: "int \<Rightarrow> int \<Rightarrow> Rect \<Rightarrow> bool \<times> Rect" where
  "shrink w h r =
     (let r' = limit w h \<lparr>x0 = x0 r + 1, y0 = y0 r + 1, x1 = x1 r - 1, y1 = y1 r - 1\<rparr>
      in (x0 r' \<noteq> x1 r' \<or> y0 r' \<noteq> y1 r', r'))"

definition expand :: "int \<Rightarrow> int \<Rightarrow> Rect \<Rightarrow> bool \<times> Rect" where
  "expand w h r =
     (let r' = limit w h \<lparr>x0 = x0 r - 1, y0 = y0 r - 1, x1 = x1 r + 1, y1 = y1 r + 1\<rparr>
      in (x0 r' \<noteq> 0 \<or> y0 r' \<noteq> 0 \<or> x1 r' \<noteq> w \<or> y1 r' \<noteq> h, r'))"

section \<open>Frames and the color-region finder\<close>

text \<open>
  \<^verbatim>\<open>GameFrame\<close> is an abstract interface; the detector only calls \<^verbatim>\<open>getPixel\<close> on it.
  A frame is modelled by its \<^verbatim>\<open>getPixel\<close>, a total function of the two coordinates
  (what a read outside the raster returns is the implementation's choice).

  The four \<^verbatim>\<open>...ContainsColor\<close> loops are \<^verbatim>\<open>for (i = a; i < b; ++i) if (p(i)) return true;
  return false;\<close>, which is \<open>anyInRange p a b\<close>.
\<close>

type_synonym GameFrame = "int \<Rightarrow> int \<Rightarrow> Pixel"

function anyInRange :: "(int \<Rightarrow> bool) \<Rightarrow> int \<Rightarrow> int \<Rightarrow> bool" where
  "anyInRange p i j = (if i < j then (if p i then True else anyInRange p (i + 1) j) else False)"
  by pat_completeness auto
termination
  by (relation "measure (\<lambda>(p, i, j). nat (j - i))") simp_all

declare anyInRange.simps [simp del]

definition topContainsColor :: "GameFrame \<Rightarrow> Rect \<Rightarrow> Pixel \<Rightarrow> bool" where
  "topContainsColor frame r color = anyInRange (\<lambda>x. frame x (y0 r) = color) (x0 r) (x1 r)"

definition bottomContainsColor :: "GameFrame \<Rightarrow> Rect \<Rightarrow> Pixel \<Rightarrow> bool" where
  "bottomContainsColor frame r color = anyInRange (\<lambda>x. frame x (y1 r) = color) (x0 r) (x1 r)"

definition leftContainsColor :: "GameFrame \<Rightarrow> Rect \<Rightarrow> Pixel \<Rightarrow> bool" where
  "leftContainsColor frame r color = anyInRange (\<lambda>y. frame (x0 r) y = color) (y0 r) (y1 r)"

definition rightContainsColor :: "GameFrame \<Rightarrow> Rect \<Rightarrow> Pixel \<Rightarrow> bool" where
  "rightContainsColor frame r color = anyInRange (\<lambda>y. frame (x1 r) y = color) (y0 r) (y1 r)"

text \<open>
  The body of the \<^verbatim>\<open>do ... while (r0 != r1)\<close> loop of \<^verbatim>\<open>findColorBounds\<close> moves each
  of the four sides outwards by one (clamped), and puts the side back to its value in \<open>r0\<close>
  (the rectangle at the start of the iteration) when the new edge line holds no pixel of
  the color.  \<open>growLeft\<close>, \<open>growTop\<close>, \<open>growRight\<close> and \<open>growBottom\<close> are the four blocks, in
  the order of the source; \<open>growOnce\<close> is the whole body.
\<close>

definition growLeft :: "GameFrame \<Rightarrow> Pixel \<Rightarrow> Rect \<Rightarrow> Rect \<Rightarrow> Rect" where
  "growLeft frame color r0 r1 =
     (let r = r1\<lparr>x0 := max 0 (x0 r1 - 1)\<rparr>
      in if \<not> leftContainsColor frame r color then r\<lparr>x0 := x0 r0\<rparr> else r)"

definition growTop :: "GameFrame \<Rightarrow> Pixel \<Rightarrow> Rect \<Rightarrow> Rect \<Rightarrow> Rect" where
  "growTop frame color r0 r1 =
     (let r = r1\<lparr>y0 := max 0 (y0 r1 - 1)\<rparr>
      in if \<not> topContainsColor frame r color then r\<lparr>y0 := y0 r0\<rparr> else r)"

definition growRight :: "int \<Rightarrow> GameFrame \<Rightarrow> Pixel \<Rightarrow> Rect \<Rightarrow> Rect \<Rightarrow> Rect" where
  "growRight w frame color r0 r1 =
     (let r = r1\<lparr>x1 := min (w - 1) (x1 r1 + 1)\<rparr>
      in if \<not> rightContainsColor frame r color then r\<lparr>x1 := x1 r0\<rparr> else r)"

definition growBottom :: "int \<Rightarrow> GameFrame \<Rightarrow> Pixel \<Rightarrow> Rect \<Rightarrow> Rect \<Rightarrow> Rect" where
  "growBottom h frame color r0 r1 =
     (let r = r1\<lparr>y1 := min (h - 1) (y1 r1 + 1)\<rparr>
      in if \<not> bottomContainsColor frame r color then r\<lparr>y1 := y1 r0\<rparr> else r)"

definition growOnce :: "int \<Rightarrow> int \<Rightarrow> GameFrame \<Rightarrow> Pixel \<Rightarrow> Rect \<Rightarrow> Rect" where
  "growOnce w h frame color r0 =
     growBottom h frame color r0 (growRight w frame color r0
       (growTop frame color r0 (growLeft frame color r0 r0)))"

text \<open>
  The loop ends: every side that changes moves towards its bound (0, or the last index
  of the screen), so the sum of the four distances decreases with each iteration that
  changes the rectangle.
\<close>

definition growMeasure :: "int \<Rightarrow> int \<Rightarrow> Rect \<Rightarrow> nat" where
  "growMeasure w h r =
     nat \<bar>x0 r\<bar> + nat \<bar>y0 r\<bar> + nat \<bar>x1 r - (w - 1)\<bar> + nat \<bar>y1 r - (h - 1)\<bar>"

lemma growLeft_fields:
  "x0 (growLeft frame color r0 r1) = x0 r0 \<or> x0 (growLeft frame color r0 r1) = max 0 (x0 r1 - 1)"
  "y0 (growLeft frame color r0 r1) = y0 r1"
  "x1 (growLeft frame color r0 r1) = x1 r1"
  "y1 (growLeft frame color r0 r1) = y1 r1"
  by (simp_all add: growLeft_def Let_def)

lemma growTop_fields:
  "y0 (growTop frame color r0 r1) = y0 r0 \<or> y0 (growTop frame color r0 r1) = max 0 (y0 r1 - 1)"
  "x0 (growTop frame color r0 r1) = x0 r1"
  "x1 (growTop frame color r0 r1) = x1 r1"
  "y1 (growTop frame color r0 r1) = y1 r1"
  by (simp_all add: growTop_def Let_def)

lemma growRight_fields:
  "x1 (growRight w frame color r0 r1) = x1 r0 \<or> x1 (growRight w frame color r0 r1) = min (w - 1) (x1 r1 + 1)"
  "x0 (growRight w frame color r0 r1) = x0 r1"
  "y0 (growRight w frame color r0 r1) = y0 r1"
  "y1 (growRight w frame color r0 r1) = y1 r1"
  by (simp_all add: growRight_def Let_def)

lemma growBottom_fields:
  "y1 (growBottom h frame color r0 r1) = y1 r0 \<or> y1 (growBottom h frame color r0 r1) = min (h - 1) (y1 r1 + 1)"
  "x0 (growBottom h frame color r0 r1) = x0 r1"
  "y0 (growBottom h frame color r0 r1) = y0 r1"
  "x1 (growBottom h frame color r0 r1) = x1 r1"
  by (simp_all add: growBottom_def Let_def)

lemma growOnce_x0: "x0 (growOnce w h frame color r) = x0 r \<or> x0 (growOnce w h frame color r) = max 0 (x0 r - 1)"
  using growLeft_fields(1) [of frame color r r]
  by (simp add: growOnce_def growBottom_fields growRight_fields growTop_fields)

lemma growOnce_y0: "y0 (growOnce w h frame color r) = y0 r \<or> y0 (growOnce w h frame color r) = max 0 (y0 r - 1)"
  using growTop_fields(1) [of frame color r "growLeft frame color r r"]
  by (simp add: growOnce_def growBottom_fields growRight_fields growLeft_fields)

lemma growOnce_x1: "x1 (growOnce w h frame color r) = x1 r \<or> x1 (growOnce w h frame color r) = min (w - 1) (x1 r + 1)"
  using growRight_fields(1) [of w frame color r "growTop frame color r (growLeft frame color r r)"]
  by (simp add: growOnce_def growBottom_fields growTop_fields growLeft_fields)

lemma growOnce_y1: "y1 (growOnce w h frame color r) = y1 r \<or> y1 (growOnce w h frame color r) = min (h - 1) (y1 r + 1)"
  using growBottom_fields(1) [of h frame color r "growRight w frame color r (growTop frame color r (growLeft frame color r r))"]
  by (simp add: growOnce_def growRight_fields growTop_fields growLeft_fields)

lemma towards_zero:
  "(b::int) = a \<or> b = max 0 (a - 1) \<Longrightarrow> nat \<bar>b\<bar> \<le> nat \<bar>a\<bar> \<and> (b = a \<or> nat \<bar>b\<bar> < nat \<bar>a\<bar>)"
  by arith

lemma towards_limit:
  "(b::int) = a \<or> b = min m (a + 1) \<Longrightarrow>
     nat \<bar>b - m\<bar> \<le> nat \<bar>a - m\<bar> \<and> (b = a \<or> nat \<bar>b - m\<bar> < nat \<bar>a - m\<bar>)"
  by arith

lemma Rect_neqD:
  "(r::Rect) \<noteq> s \<Longrightarrow> x0 r \<noteq> x0 s \<or> y0 r \<noteq> y0 s \<or> x1 r \<noteq> x1 s \<or> y1 r \<noteq> y1 s"
  by (cases r, cases s) simp

lemma sum4_less:
  fixes a b c d :: nat
  assumes "a' \<le> a" "b' \<le> b" "c' \<le> c" "d' \<le> d"
    and "a' < a \<or> b' < b \<or> c' < c \<or> d' < d"
  shows "a' + b' + c' + d' < a + b + c + d"
  using assms by linarith

lemma growOnce_measure:
  assumes ne: "growOnce w h frame color r \<noteq> r"
  shows "growMeasure w h (growOnce w h frame color r) < growMeasure w h r"
proof -
  let ?s = "growOnce w h frame color r"
  note a = towards_zero [OF growOnce_x0 [of w h frame color r]]
  note b = towards_zero [OF growOnce_y0 [of w h frame color r]]
  note c = towards_limit [OF growOnce_x1 [of w h frame color r]]
  note d = towards_limit [OF growOnce_y1 [of w h frame color r]]
  have "nat \<bar>x0 ?s\<bar> < nat \<bar>x0 r\<bar> \<or> nat \<bar>y0 ?s\<bar> < nat \<bar>y0 r\<bar>
      \<or> nat \<bar>x1 ?s - (w - 1)\<bar> < nat \<bar>x1 r - (w - 1)\<bar>
      \<or> nat \<bar>y1 ?s - (h - 1)\<bar> < nat \<bar>y1 r - (h - 1)\<bar>"
    using Rect_neqD [OF ne] a b c d by blast
  then show ?thesis
    unfolding growMeasure_def
    by (intro sum4_less) (use a b c d in blast)+
qed

function findColorBoundsLoop :: "int \<Rightarrow> int \<Rightarrow> GameFrame \<Rightarrow> Pixel \<Rightarrow> Rect \<Rightarrow> Rect" where
  "findColorBoundsLoop w h frame color r0 =
     (let r1 = growOnce w h frame color r0
      in if r0 \<noteq> r1 then findColorBoundsLoop w h frame color r1 else r0)"
  by pat_completeness auto
termination
proof (relation "measure (\<lambda>(w, h, frame, color, r). growMeasure w h r)")
  show "wf (measure (\<lambda>(w, h, frame, color, r). growMeasure w h r))" by simp
next
  fix w h :: int and frame :: GameFrame and color :: Pixel and r0 r1 :: Rect
  assume "r1 = growOnce w h frame color r0" "r0 \<noteq> r1"
  then show "((w, h, frame, color, r1), (w, h, frame, color, r0))
               \<in> measure (\<lambda>(w, h, frame, color, r). growMeasure w h r)"
    using growOnce_measure [of w h frame color r0] by simp
qed

declare findColorBoundsLoop.simps [simp del]

text \<open>
  \<^verbatim>\<open>findColorBounds\<close> returns whether the rectangle changed, and the rectangle.
\<close>

definition findColorBounds :: "int \<Rightarrow> int \<Rightarrow> GameFrame \<Rightarrow> Rect \<Rightarrow> Pixel \<Rightarrow> bool \<times> Rect" where
  "findColorBounds w h frame rect color =
     (let r0 = findColorBoundsLoop w h frame color rect
      in if rect \<noteq> r0 then (True, r0) else (False, rect))"

section \<open>The ball detector\<close>

text \<open>
  \<^verbatim>\<open>checkForBall\<close> writes to its reference parameter \<^verbatim>\<open>ball\<close> as soon as the pixel at
  \<open>(x, y)\<close> has the ball color, also when it then returns false: the model returns the
  boolean together with the value the parameter holds afterwards.
\<close>

definition checkForBall :: "int \<Rightarrow> int \<Rightarrow> GameFrame \<Rightarrow> int \<Rightarrow> int \<Rightarrow> Rect \<Rightarrow> bool \<times> Rect" where
  "checkForBall w h frame x y b =
     (if frame x y \<noteq> ballColor then (False, b)
      else
        (case findColorBounds w h frame \<lparr>x0 = x, y0 = y, x1 = x + 1, y1 = y + 1\<rparr> ballColor of
          (changed, b') \<Rightarrow>
            if changed then
              (let wd = width b'; ht = height b'
               in if wd > 4 \<and> ht > 4 \<and> wd = ht then
                    (if frame (x0 b') (y0 b') \<noteq> ballColor
                        \<and> frame (x1 b') (y0 b') \<noteq> ballColor
                        \<and> frame (x0 b') (y1 b') \<noteq> ballColor
                        \<and> frame (x1 b') (y1 b') \<noteq> ballColor
                        \<and> frame (x0 b' + cdiv2 wd) (y0 b' + 1) = ballColor
                        \<and> frame (x0 b' + cdiv2 wd) (y1 b' - 1) = ballColor
                        \<and> frame (x0 b' + 1) (y0 b' + cdiv2 ht) = ballColor
                        \<and> frame (x1 b' - 1) (y0 b' + cdiv2 ht) = ballColor
                     then (True, b') else (False, b'))
                  else (False, b'))
            else (False, b')))"

section \<open>The game state\<close>

text \<open>
  The members of \<^verbatim>\<open>class Game\<close>.  \<open>widthG\<close> and \<open>heightG\<close> are the members \<^verbatim>\<open>width\<close> and
  \<^verbatim>\<open>height\<close> (the names \<open>width\<close> and \<open>height\<close> are taken by the methods of \<open>Rect\<close>).
  \<^verbatim>\<open>time_t\<close> values are integers.  The calls on the \<^verbatim>\<open>GameControls\<close> reference and the
  \<^verbatim>\<open>savePng\<close> call on the frame are returned as a list of events, in the order of the
  calls; the log lines written to \<^verbatim>\<open>cerr\<close> are left out.
\<close>

record Game =
  widthG :: int
  heightG :: int
  screen :: Rect
  ball :: Rect
  field :: Rect
  frameCount :: int
  lastFire :: int
  lastBall :: int
  lastBallMove :: int
  deadzoneFrames :: int
  ignoredCount :: int
  hasFired :: bool

datatype Event = Fire | Move int int | Click int int | Focus int int | SavePng string

text \<open>
  The constructor reads the clock twice, for \<^verbatim>\<open>lastBall\<close> and for \<^verbatim>\<open>lastBallMove\<close>.
\<close>

definition newGame :: "int \<Rightarrow> int \<Rightarrow> int \<Rightarrow> int \<Rightarrow> int \<Rightarrow> Game" where
  "newGame w h dz t1 t2 =
     \<lparr>widthG = w, heightG = h,
      screen = \<lparr>x0 = 0, y0 = 0, x1 = w, y1 = h\<rparr>,
      ball = \<lparr>x0 = 0, y0 = 0, x1 = 0, y1 = 0\<rparr>,
      field = \<lparr>x0 = 0, y0 = 0, x1 = 0, y1 = 0\<rparr>,
      frameCount = 0, lastFire = 0, lastBall = t1, lastBallMove = t2,
      deadzoneFrames = dz, ignoredCount = 0, hasFired = False\<rparr>"

section \<open>Finding the ball\<close>

text \<open>
  \<^verbatim>\<open>isBallSurrounded\<close> expands a copy of its argument three times and probes the four
  edge midpoints of the result.
\<close>

definition isBallSurrounded :: "int \<Rightarrow> int \<Rightarrow> GameFrame \<Rightarrow> Rect \<Rightarrow> bool" where
  "isBallSurrounded w h frame b =
     (let f = snd (expand w h (snd (expand w h (snd (expand w h b)))))
      in frame (centerX f) (y0 f) \<noteq> fieldColor
       \<and> frame (centerX f) (y1 f) \<noteq> fieldColor
       \<and> frame (x0 f) (centerY f) \<noteq> fieldColor
       \<and> frame (x1 f) (centerY f) \<noteq> fieldColor)"

text \<open>
  The first part of \<^verbatim>\<open>findBall\<close>: the four calls of \<^verbatim>\<open>checkForBall\<close> joined by \<^verbatim>\<open>||\<close>.
  Each call reads its coordinates from the local \<^verbatim>\<open>b\<close> as the calls before it left it, and
  a call is made only when all calls before it returned false.
\<close>

definition reacquire :: "int \<Rightarrow> int \<Rightarrow> GameFrame \<Rightarrow> Rect \<Rightarrow> bool \<times> Rect" where
  "reacquire w h frame b =
     (case checkForBall w h frame (centerX b) (y0 b) b of
        (True, b1) \<Rightarrow> (True, b1)
      | (False, b1) \<Rightarrow>
     (case checkForBall w h frame (x0 b1) (centerY b1) b1 of
        (True, b2) \<Rightarrow> (True, b2)
      | (False, b2) \<Rightarrow>
     (case checkForBall w h frame (centerX b2) (y1 b2) b2 of
        (True, b3) \<Rightarrow> (True, b3)
      | (False, b3) \<Rightarrow>
        checkForBall w h frame (x1 b3) (centerY b3) b3)))"

text \<open>
  The second part: the grid scan over the zone.  \<open>scanRow\<close> is the inner loop over \<open>x\<close> for
  one \<open>y\<close>, \<open>scanZone\<close> the outer loop over \<open>y\<close>.  The steps are taken from the tracked ball
  \<open>bl\<close> (the member \<^verbatim>\<open>ball\<close>), the containment test from the local \<^verbatim>\<open>b\<close>, which every
  failed \<^verbatim>\<open>checkForBall\<close> on a ball-colored pixel has overwritten.
\<close>

function scanRow :: "int \<Rightarrow> int \<Rightarrow> GameFrame \<Rightarrow> Rect \<Rightarrow> Rect \<Rightarrow> int \<Rightarrow> int \<Rightarrow> Rect \<Rightarrow> bool \<times> Rect" where
  "scanRow w h frame bl zone y x b =
     (if x < x1 zone then
        (if \<not> contains b x y then
           (case checkForBall w h frame x y b of
              (True, b') \<Rightarrow> (True, b')
            | (False, b') \<Rightarrow> scanRow w h frame bl zone y (x + max 1 (cdiv2 (width bl))) b')
         else scanRow w h frame bl zone y (x + max 1 (cdiv2 (width bl))) b)
      else (False, b))"
  by pat_completeness auto
termination
  by (relation "measure (\<lambda>(w, h, frame, bl, zone, y, x, b). nat (x1 zone - x))") simp_all

declare scanRow.simps [simp del]

function scanZone :: "int \<Rightarrow> int \<Rightarrow> GameFrame \<Rightarrow> Rect \<Rightarrow> Rect \<Rightarrow> int \<Rightarrow> Rect \<Rightarrow> bool \<times> Rect" where
  "scanZone w h frame bl zone y b =
     (if y < y1 zone then
        (case scanRow w h frame bl zone y (x0 zone) b of
           (True, b') \<Rightarrow> (True, b')
         | (False, b') \<Rightarrow> scanZone w h frame bl zone (y + max 1 (cdiv2 (height bl))) b')
      else (False, b))"
  by pat_completeness auto
termination
  by (relation "measure (\<lambda>(w, h, frame, bl, zone, y, b). nat (y1 zone - y))") simp_all

declare scanZone.simps [simp del]

text \<open>
  \<^verbatim>\<open>findBall\<close>: \<open>t\<close> is the value of the clock read on the path that finds the ball.
\<close>

definition findBall :: "Game \<Rightarrow> GameFrame \<Rightarrow> Rect \<Rightarrow> int \<Rightarrow> bool \<times> Game" where
  "findBall g frame zone t =
     (case reacquire (widthG g) (heightG g) frame (ball g) of
        (True, b) \<Rightarrow>
          (True, g\<lparr>lastBallMove := (if ball g \<noteq> b then t else lastBallMove g),
                   ball := b, lastBall := t\<rparr>)
      | (False, _) \<Rightarrow>
          (case scanZone (widthG g) (heightG g) frame (ball g) zone (y0 zone) (ball g) of
             (True, b) \<Rightarrow> (True, g\<lparr>ball := b, lastBall := t, lastBallMove := t\<rparr>)
           | (False, _) \<Rightarrow> (False, g)))"

section \<open>Field calibration\<close>

text \<open>
  In \<^verbatim>\<open>haveField\<close> the unit is at least 4, so \<^verbatim>\<open>unit / 4\<close> divides a positive number.
\<close>

definition haveField :: "Game \<Rightarrow> bool" where
  "haveField g =
     (let unit = max 4 (width (ball g))
      in width (field g) > unit * 10
       \<and> height (field g) > unit * 10
       \<and> width (field g) < height (field g) + unit div 4
       \<and> width (field g) > height (field g) - unit div 4)"

definition expandField :: "Game \<Rightarrow> GameFrame \<Rightarrow> int \<Rightarrow> bool \<times> Game \<times> Event list" where
  "expandField g frame t =
     (case findBall g frame \<lparr>x0 = 0, y0 = 0, x1 = widthG g, y1 = heightG g\<rparr> t of
        (False, g1) \<Rightarrow>
          if x1 (field g1) = 0 then (False, g1, [SavePng ''no-ball-proof.png''])
          else (True, g1, [])
      | (True, g1) \<Rightarrow>
          if x1 (field g1) = 0 then (True, g1\<lparr>field := ball g1\<rparr>, [])
          else (True, g1\<lparr>field := add (field g1) (ball g1)\<rparr>, []))"

text \<open>
  \<^verbatim>\<open>addFieldSafetyMargin\<close>: \<^verbatim>\<open>for (int i = 0; i < ball.width(); ++i) expand(field);\<close>
\<close>

function expandTimes :: "int \<Rightarrow> int \<Rightarrow> int \<Rightarrow> int \<Rightarrow> Rect \<Rightarrow> Rect" where
  "expandTimes w h i n r =
     (if i < n then expandTimes w h (i + 1) n (snd (expand w h r)) else r)"
  by pat_completeness auto
termination
  by (relation "measure (\<lambda>(w, h, i, n, r). nat (n - i))") simp_all

declare expandTimes.simps [simp del]

definition addFieldSafetyMargin :: "Game \<Rightarrow> Game" where
  "addFieldSafetyMargin g =
     g\<lparr>field := expandTimes (widthG g) (heightG g) 0 (width (ball g)) (field g)\<rparr>"

section \<open>The fire policy and the step\<close>

definition fire :: "Game \<Rightarrow> bool \<times> Game \<times> Event list" where
  "fire g =
     (if frameCount g - lastFire g \<ge> deadzoneFrames g
      then (True, g\<lparr>ignoredCount := 0, lastFire := frameCount g\<rparr>, [Fire])
      else (False, g\<lparr>ignoredCount := ignoredCount g + 1\<rparr>, []))"

text \<open>
  The branch of \<^verbatim>\<open>step\<close> taken while there is no field yet.  \<open>frame\<close> is the frame after
  \<^verbatim>\<open>frame.next()\<close>; \<open>tf\<close> is the clock as \<^verbatim>\<open>findBall\<close> reads it.
\<close>

definition stepBootstrap :: "Game \<Rightarrow> GameFrame \<Rightarrow> int \<Rightarrow> bool \<times> Game \<times> Event list" where
  "stepBootstrap g frame tf =
     (let lastField = field g
      in case expandField g frame tf of
           (keepPlaying, g1, ev) \<Rightarrow>
             if keepPlaying then
               (if lastField = field g1 \<and> field g1 = ball g1 then
                  (keepPlaying,
                   g1\<lparr>field := snd (expand (widthG g1) (heightG g1) (field g1))\<rparr>,
                   ev @ [Focus (centerX (ball g1)) (centerY (ball g1)), Fire])
                else if haveField g1 then
                  (let g2 = addFieldSafetyMargin g1
                   in (keepPlaying, g2, ev @ [Move (x1 (field g2)) (y1 (field g2))]))
                else (keepPlaying, g1, ev))
             else (keepPlaying, g1, ev))"

text \<open>
  The branch of \<^verbatim>\<open>step\<close> taken once the field is known.  \<open>ts\<close> is the clock as \<^verbatim>\<open>step\<close>
  itself reads it for the timeout.
\<close>

definition stepActive :: "Game \<Rightarrow> GameFrame \<Rightarrow> int \<Rightarrow> int \<Rightarrow> bool \<times> Game \<times> Event list" where
  "stepActive g frame tf ts =
     (case findBall g frame (field g) tf of
        (True, g1) \<Rightarrow>
          (let ballBox = snd (expand (widthG g1) (heightG g1) (ball g1))
           in case (if isBallSurrounded (widthG g1) (heightG g1) frame ballBox then
                      (if \<not> hasFired g1 then
                         (case fire g1 of (fired, g2, ev) \<Rightarrow> (g2\<lparr>hasFired := fired\<rparr>, ev))
                       else (g1, []))
                    else (g1\<lparr>hasFired := False\<rparr>, [])) of
                (g3, ev) \<Rightarrow> (ts - lastBallMove g3 < 2, g3, ev))
      | (False, g1) \<Rightarrow> (ts - lastBall g1 < 2, g1, []))"

definition step :: "Game \<Rightarrow> GameFrame \<Rightarrow> int \<Rightarrow> int \<Rightarrow> bool \<times> Game \<times> Event list" where
  "step g frame tf ts =
     (case (if \<not> haveField g then stepBootstrap g frame tf else stepActive g frame tf ts) of
        (keepPlaying, g', ev) \<Rightarrow> (keepPlaying, g'\<lparr>frameCount := frameCount g' + 1\<rparr>, ev))"

section \<open>Scenario: the fire policy on consecutive frames\<close>

text \<open>
  \<^verbatim>\<open>fire\<close> is private and called once per frame at most, and \<^verbatim>\<open>step\<close> ends with
  \<^verbatim>\<open>++frameCount\<close>.  \<open>fireEachFrame n g\<close> calls \<open>fire\<close> on \<open>n\<close> consecutive frames starting
  from \<open>g\<close>, and records for each frame whether the signal was dispatched, and the ignored
  counter before and after the call (the counter before the call is the one the log line
  of a dispatch prints).
\<close>

primrec fireEachFrame :: "nat \<Rightarrow> Game \<Rightarrow> (bool \<times> int \<times> int) list" where
  "fireEachFrame 0 g = []"
| "fireEachFrame (Suc n) g =
     (case fire g of
        (fired, g', ev) \<Rightarrow>
          (fired, ignoredCount g, ignoredCount g')
            # fireEachFrame n (g'\<lparr>frameCount := frameCount g' + 1\<rparr>))"

section \<open>Scenarios\<close>


text \<open>A frame without any pixel of the ball color or of the field color.\<close>

definition blankFrame :: GameFrame where
  "blankFrame x y = 0"

text \<open>
  Two states of a game on a 100 by 100 screen whose tracked ball is the 7 by 7 pixel
  diamond around \<open>(50, 50)\<close>, as the detector reports it.  In \<open>idleGame\<close> the field is the
  ball rectangle, as it is after the first sighting; in \<open>activeGame\<close> the field is
  established.
\<close>

definition idleGame :: Game where
  "idleGame = (newGame 100 100 1 0 0)
     \<lparr>ball := \<lparr>x0 = 47, y0 = 47, x1 = 53, y1 = 53\<rparr>,
      field := \<lparr>x0 = 47, y0 = 47, x1 = 53, y1 = 53\<rparr>, frameCount := 1\<rparr>"

definition activeGame :: Game where
  "activeGame = (newGame 100 100 1 100 100)
     \<lparr>ball := \<lparr>x0 = 47, y0 = 47, x1 = 53, y1 = 53\<rparr>,
      field := \<lparr>x0 = 10, y0 = 10, x1 = 90, y1 = 90\<rparr>, frameCount := 10\<rparr>"

text \<open>
  A frame showing the diamond of ball color around \<open>(50, 50)\<close> (the pixels at distance at
  most 3 in the sum of the two coordinate distances) on a background of the value 0,
  with the pixel \<open>(50, 43)\<close> set to \<open>p\<close> and the pixel \<open>(50, 44)\<close> set to \<open>q\<close>.
\<close>

definition diamondFrame :: "Pixel \<Rightarrow> Pixel \<Rightarrow> GameFrame" where
  "diamondFrame p q x y =
     (if \<bar>x - 50\<bar> + \<bar>y - 50\<bar> \<le> 3 then ballColor
      else if x = 50 \<and> y = 43 then p
      else if x = 50 \<and> y = 44 then q
      else 0)"

text \<open>
  A synthetic raster: a solid block of the color \<open>c\<close>, \<open>bw\<close> wide and \<open>bh\<close> high with its
  top-left pixel at \<open>(bx, by)\<close>, on a background of another color.
\<close>

definition blockFrame :: "Pixel \<Rightarrow> int \<Rightarrow> int \<Rightarrow> int \<Rightarrow> int \<Rightarrow> GameFrame" where
  "blockFrame c bx by bw bh x y =
     (if bx \<le> x \<and> x < bx + bw \<and> by \<le> y \<and> y < by + bh then c else c + 1)"

text \<open>
  The rectangles the region finder passes through on a solid block at \<open>(bx, by)\<close> of size
  \<open>bw\<close> by \<open>bh\<close>: non-empty, and between the block's first and last column and row.
\<close>

definition growsWithin :: "int \<Rightarrow> int \<Rightarrow> int \<Rightarrow> int \<Rightarrow> Rect \<Rightarrow> bool" where
  "growsWithin bx by bw bh r =
     (bx \<le> x0 r \<and> x0 r < x1 r \<and> x1 r \<le> bx + bw - 1
      \<and> by \<le> y0 r \<and> y0 r < y1 r \<and> y1 r \<le> by + bh - 1)"

section \<open>Properties of the geometry\<close>

lemma fieldColor_value: "fieldColor = 0x00fbf9f6"
  by (simp add: fieldColor_def Pixel_def)

lemma ballColor_value: "ballColor = 0x002c3d51"
  by (simp add: ballColor_def Pixel_def)

lemma ballColor_neq_fieldColor: "ballColor \<noteq> fieldColor"
  by (simp add: fieldColor_value ballColor_value)

lemma limit_fields:
  "x0 (limit w h r) = min (x1 r) (min w (max 0 (x0 r)))"
  "y0 (limit w h r) = min (y1 r) (min h (max 0 (y0 r)))"
  "x1 (limit w h r) = max (min (x1 r) (min w (max 0 (x0 r)))) (min w (max 0 (x1 r)))"
  "y1 (limit w h r) = max (min (y1 r) (min h (max 0 (y0 r)))) (min h (max 0 (y1 r)))"
  by (simp_all add: limit_def Let_def)

lemma Rect_eqI:
  "x0 r = x0 s \<Longrightarrow> y0 r = y0 s \<Longrightarrow> x1 r = x1 s \<Longrightarrow> y1 r = y1 s \<Longrightarrow> (r::Rect) = s"
  by simp

text \<open>
  What \<open>limit\<close> does on a screen of non-negative size to a rectangle whose \<open>x1\<close> and \<open>y1\<close>
  are not negative: it clamps it into the screen, and clamping it again changes nothing.
\<close>

lemma limit_clamps:
  assumes "0 \<le> w" "0 \<le> h" "0 \<le> x1 r" "0 \<le> y1 r"
  shows "0 \<le> x0 (limit w h r) \<and> x0 (limit w h r) \<le> x1 (limit w h r) \<and> x1 (limit w h r) \<le> w
       \<and> 0 \<le> y0 (limit w h r) \<and> y0 (limit w h r) \<le> y1 (limit w h r) \<and> y1 (limit w h r) \<le> h
       \<and> limit w h (limit w h r) = limit w h r"
  using assms by (auto simp add: limit_fields intro!: Rect_eqI)

text \<open>
  A negative \<open>x1\<close> or \<open>y1\<close> always survives: \<open>limit\<close> takes the minimum of the clamped
  \<open>x0\<close> with the \<open>x1\<close> it was given.
\<close>

lemma limit_negative_stays:
  "x1 r < 0 \<Longrightarrow> x0 (limit w h r) < 0"
  "y1 r < 0 \<Longrightarrow> y0 (limit w h r) < 0"
  by (simp_all add: limit_fields)

text \<open>
  \<open>limit\<close> is private; the program calls it through \<open>expand\<close> only (\<open>shrink\<close> has no
  caller).  \<open>expand\<close> hands it \<open>x1 + 1\<close> and \<open>y1 + 1\<close>, so a rectangle whose \<open>x1\<close> and \<open>y1\<close>
  are not negative is expanded into the screen, where \<open>x1\<close> and \<open>y1\<close> are not negative
  again.
\<close>

lemma expand_in_screen:
  assumes "0 \<le> w" "0 \<le> h" "0 \<le> x1 r" "0 \<le> y1 r"
  shows "0 \<le> x0 (snd (expand w h r)) \<and> x0 (snd (expand w h r)) \<le> x1 (snd (expand w h r))
       \<and> x1 (snd (expand w h r)) \<le> w
       \<and> 0 \<le> y0 (snd (expand w h r)) \<and> y0 (snd (expand w h r)) \<le> y1 (snd (expand w h r))
       \<and> y1 (snd (expand w h r)) \<le> h"
proof -
  let ?r = "\<lparr>x0 = x0 r - 1, y0 = y0 r - 1, x1 = x1 r + 1, y1 = y1 r + 1\<rparr>"
  have "0 \<le> x1 ?r" "0 \<le> y1 ?r"
    using assms(3,4) by simp_all
  from limit_clamps [OF assms(1,2) this] show ?thesis
    by (simp add: expand_def Let_def)
qed

text \<open>
  Claim C7 as stated (for every rectangle, also with out-of-bounds or inverted
  coordinates, \<open>limit\<close> is idempotent and its result satisfies \<open>0 \<le> x0 \<le> x1 \<le> width\<close> and
  \<open>0 \<le> y0 \<le> y1 \<le> height\<close>) fails for rectangles with a negative \<open>x1\<close> or \<open>y1\<close>: on a
  10 by 10 screen the inverted rectangle \<open>(5, 5, -3, -3)\<close> is mapped to \<open>(-3, -3, 0, 0)\<close>,
  whose \<open>x0\<close> and \<open>y0\<close> are negative, and a second \<open>limit\<close> maps that to \<open>(0, 0, 0, 0)\<close>.
\<close>

theorem limit_negative_x1:
  "limit 10 10 \<lparr>x0 = 5, y0 = 5, x1 = -3, y1 = -3\<rparr> = \<lparr>x0 = -3, y0 = -3, x1 = 0, y1 = 0\<rparr>
   \<and> limit 10 10 (limit 10 10 \<lparr>x0 = 5, y0 = 5, x1 = -3, y1 = -3\<rparr>)
        = \<lparr>x0 = 0, y0 = 0, x1 = 0, y1 = 0\<rparr>"
  by (simp add: limit_def Let_def)

text \<open>
  Claim C7, amended: on a screen of non-negative width and height, for every rectangle
  \<open>r\<close> whose \<open>x1\<close> and \<open>y1\<close> are not negative (\<open>x0\<close> and \<open>y0\<close> are arbitrary, and the
  rectangle may be inverted or reach beyond the screen), the result of \<open>limit\<close> satisfies
  \<open>0 \<le> x0 \<le> x1 \<le> width\<close> and \<open>0 \<le> y0 \<le> y1 \<le> height\<close>, and applying \<open>limit\<close> twice gives
  the same result as applying it once.  These are the rectangles \<open>limit\<close> receives in the
  program.
\<close>

theorem limit_in_screen:
  assumes "0 \<le> w" "0 \<le> h" "0 \<le> x1 r" "0 \<le> y1 r"
  shows "0 \<le> x0 (limit w h r) \<and> x0 (limit w h r) \<le> x1 (limit w h r) \<and> x1 (limit w h r) \<le> w
       \<and> 0 \<le> y0 (limit w h r) \<and> y0 (limit w h r) \<le> y1 (limit w h r) \<and> y1 (limit w h r) \<le> h
       \<and> limit w h (limit w h r) = limit w h r"
  using assms by (rule limit_clamps)

theorem limit_in_screen_witness:
  "0 \<le> x0 (limit 100 100 \<lparr>x0 = -5, y0 = 120, x1 = 7, y1 = 3\<rparr>)
   \<and> x0 (limit 100 100 \<lparr>x0 = -5, y0 = 120, x1 = 7, y1 = 3\<rparr>)
        \<le> x1 (limit 100 100 \<lparr>x0 = -5, y0 = 120, x1 = 7, y1 = 3\<rparr>)
   \<and> x1 (limit 100 100 \<lparr>x0 = -5, y0 = 120, x1 = 7, y1 = 3\<rparr>) \<le> 100
   \<and> 0 \<le> y0 (limit 100 100 \<lparr>x0 = -5, y0 = 120, x1 = 7, y1 = 3\<rparr>)
   \<and> y0 (limit 100 100 \<lparr>x0 = -5, y0 = 120, x1 = 7, y1 = 3\<rparr>)
        \<le> y1 (limit 100 100 \<lparr>x0 = -5, y0 = 120, x1 = 7, y1 = 3\<rparr>)
   \<and> y1 (limit 100 100 \<lparr>x0 = -5, y0 = 120, x1 = 7, y1 = 3\<rparr>) \<le> 100
   \<and> limit 100 100 (limit 100 100 \<lparr>x0 = -5, y0 = 120, x1 = 7, y1 = 3\<rparr>)
        = limit 100 100 \<lparr>x0 = -5, y0 = 120, x1 = 7, y1 = 3\<rparr>"
  using limit_in_screen [of 100 100 "\<lparr>x0 = -5, y0 = 120, x1 = 7, y1 = 3\<rparr>"]
  by simp

text \<open>
  Claim C8 as stated (for every rectangle strictly inside the screen, \<open>expand\<close> then
  \<open>shrink\<close> and \<open>shrink\<close> then \<open>expand\<close> both give the rectangle back) fails for rectangles
  less than two pixels wide or high: \<open>shrink\<close> collapses the 1 by 1 rectangle
  \<open>(5, 5, 6, 6)\<close> of a 100 by 100 screen to the empty \<open>(5, 5, 5, 5)\<close>, because \<open>limit\<close> keeps
  \<open>x0 \<le> x1\<close>, and \<open>expand\<close> then gives \<open>(4, 4, 6, 6)\<close>.
\<close>

theorem shrink_then_expand_unit_rect:
  "snd (shrink 100 100 \<lparr>x0 = 5, y0 = 5, x1 = 6, y1 = 6\<rparr>) = \<lparr>x0 = 5, y0 = 5, x1 = 5, y1 = 5\<rparr>
   \<and> snd (expand 100 100 (snd (shrink 100 100 \<lparr>x0 = 5, y0 = 5, x1 = 6, y1 = 6\<rparr>)))
        = \<lparr>x0 = 4, y0 = 4, x1 = 6, y1 = 6\<rparr>
   \<and> snd (expand 100 100 (snd (shrink 100 100 \<lparr>x0 = 5, y0 = 5, x1 = 6, y1 = 6\<rparr>)))
        \<noteq> \<lparr>x0 = 5, y0 = 5, x1 = 6, y1 = 6\<rparr>"
  by (simp add: limit_def shrink_def expand_def Let_def)

text \<open>
  Claim C8, amended: for every rectangle \<open>r\<close> with \<open>x0 \<le> x1\<close> and \<open>y0 \<le> y1\<close> strictly inside
  the screen, \<open>expand\<close> then \<open>shrink\<close> gives \<open>r\<close> back; \<open>shrink\<close> then \<open>expand\<close> gives \<open>r\<close> back
  when \<open>r\<close> is moreover at least two pixels wide and two pixels high.  At the boundary the
  pair is not invertible: the rectangle of the whole screen is not given back by \<open>expand\<close>
  then \<open>shrink\<close>.
\<close>

theorem expand_shrink_interior:
  assumes "0 < x0 r" "x0 r \<le> x1 r" "x1 r < w" "0 < y0 r" "y0 r \<le> y1 r" "y1 r < h"
  shows "snd (shrink w h (snd (expand w h r))) = r
       \<and> (x0 r + 2 \<le> x1 r \<and> y0 r + 2 \<le> y1 r \<longrightarrow> snd (expand w h (snd (shrink w h r))) = r)
       \<and> snd (shrink w h (snd (expand w h \<lparr>x0 = 0, y0 = 0, x1 = w, y1 = h\<rparr>)))
            \<noteq> \<lparr>x0 = 0, y0 = 0, x1 = w, y1 = h\<rparr>"
  using assms by (auto simp add: limit_def shrink_def expand_def Let_def)

theorem expand_shrink_interior_witness:
  "snd (shrink 100 100 (snd (expand 100 100 \<lparr>x0 = 5, y0 = 7, x1 = 9, y1 = 12\<rparr>)))
     = \<lparr>x0 = 5, y0 = 7, x1 = 9, y1 = 12\<rparr>
   \<and> snd (expand 100 100 (snd (shrink 100 100 \<lparr>x0 = 5, y0 = 7, x1 = 9, y1 = 12\<rparr>)))
     = \<lparr>x0 = 5, y0 = 7, x1 = 9, y1 = 12\<rparr>
   \<and> snd (shrink 100 100 (snd (expand 100 100 \<lparr>x0 = 0, y0 = 0, x1 = 100, y1 = 100\<rparr>)))
     \<noteq> \<lparr>x0 = 0, y0 = 0, x1 = 100, y1 = 100\<rparr>"
  using expand_shrink_interior [of "\<lparr>x0 = 5, y0 = 7, x1 = 9, y1 = 12\<rparr>" 100 100]
  by simp

text \<open>
  Claim C9: \<open>Rect::add\<close>, the bounding-box union, is commutative and associative, and the
  union of a rectangle with itself is that rectangle.
\<close>

theorem add_comm_assoc_idem:
  "add a b = add b a \<and> add (add a b) c = add a (add b c) \<and> add a a = a"
  by (simp add: add_def min.commute max.commute min.assoc max.assoc
      min.left_commute max.left_commute)

section \<open>Properties of the fire policy\<close>

text \<open>
  Claim C2 as stated (a fresh game with \<open>deadzoneFrames = 3\<close> dispatches on frames 0 and 3)
  fails: the constructor sets \<^verbatim>\<open>lastFire\<close> to 0, so on frame 0 no frame has elapsed and the
  attempt is ignored.  The only dispatch of frames 0 to 5 is on frame 3, with three
  ignored attempts counted before it.
\<close>

theorem fire_frame0_ignored:
  "fireEachFrame 6 (newGame 100 100 3 0 0)
     = [(False, 0, 1), (False, 1, 2), (False, 2, 3), (True, 3, 0), (False, 0, 1), (False, 1, 2)]"
  by (simp add: eval_nat_numeral fire_def newGame_def)

text \<open>
  Claim C2, amended: for a freshly constructed game with \<open>deadzoneFrames = 3\<close>, the fire
  policy invoked once on each of the frames 0 to 5 dispatches on frame 3 only; the
  attempts on frames 0, 1, 2, 4 and 5 are ignored; the ignored counter is 3 at the
  dispatch and reset to 0 by it.  In general a dispatch occurs iff
  \<open>frameCount - lastFire \<ge> deadzoneFrames\<close>, where \<^verbatim>\<open>lastFire\<close> is the frame of the last
  dispatch (0 before the first one); a dispatch sends one activate signal, resets the
  ignored counter and records the frame index; an ignored attempt only increments the
  ignored counter.
\<close>

theorem fire_debounce:
  "fireEachFrame 6 (newGame w h 3 t1 t2)
     = [(False, 0, 1), (False, 1, 2), (False, 2, 3), (True, 3, 0), (False, 0, 1), (False, 1, 2)]
   \<and> fst (fire g) = (deadzoneFrames g \<le> frameCount g - lastFire g)
   \<and> (fst (fire g) \<longrightarrow>
        fst (snd (fire g)) = g\<lparr>ignoredCount := 0, lastFire := frameCount g\<rparr>
        \<and> snd (snd (fire g)) = [Fire])
   \<and> (\<not> fst (fire g) \<longrightarrow>
        fst (snd (fire g)) = g\<lparr>ignoredCount := ignoredCount g + 1\<rparr>
        \<and> snd (snd (fire g)) = [])"
  by (simp add: eval_nat_numeral fire_def newGame_def)

theorem fire_debounce_witness:
  "fst (fire ((newGame 100 100 3 0 0)\<lparr>frameCount := 3\<rparr>))
   \<and> lastFire (fst (snd (fire ((newGame 100 100 3 0 0)\<lparr>frameCount := 3\<rparr>)))) = 3
   \<and> snd (snd (fire ((newGame 100 100 3 0 0)\<lparr>frameCount := 3\<rparr>))) = [Fire]
   \<and> \<not> fst (fire (newGame 100 100 3 0 0))
   \<and> ignoredCount (fst (snd (fire (newGame 100 100 3 0 0)))) = 1"
  using fire_debounce [of 100 100 0 0 "(newGame 100 100 3 0 0)\<lparr>frameCount := 3\<rparr>"]
        fire_debounce [of 100 100 0 0 "newGame 100 100 3 0 0"]
  by (simp add: newGame_def)

section \<open>The color-region finder on a solid block\<close>

text \<open>The equations that evaluate the finder and the detector on a concrete frame.\<close>

lemmas detector_eval = checkForBall_def findColorBounds_def findColorBoundsLoop.simps growOnce_def
  growLeft_def growTop_def growRight_def growBottom_def Let_def anyInRange.simps
  leftContainsColor_def rightContainsColor_def topContainsColor_def bottomContainsColor_def
  width_def height_def cdiv2_def

lemma anyInRange_iff: "anyInRange p i j = (\<exists>k. i \<le> k \<and> k < j \<and> p k)"
proof (induction p i j rule: anyInRange.induct)
  case (1 p i j)
  show ?case
  proof (cases "i < j \<and> \<not> p i")
    case True
    then have "anyInRange p i j = (\<exists>k. i + 1 \<le> k \<and> k < j \<and> p k)"
      using "1.IH" by (subst anyInRange.simps) simp
    also have "\<dots> = (\<exists>k. i \<le> k \<and> k < j \<and> p k)"
    proof
      assume "\<exists>k. i + 1 \<le> k \<and> k < j \<and> p k"
      then obtain k where "i + 1 \<le> k" "k < j" "p k" by blast
      then have "i \<le> k \<and> k < j \<and> p k" by simp
      then show "\<exists>k. i \<le> k \<and> k < j \<and> p k" ..
    next
      assume "\<exists>k. i \<le> k \<and> k < j \<and> p k"
      then obtain k where k: "i \<le> k" "k < j" "p k" by blast
      with True have "k \<noteq> i" by auto
      with k have "i + 1 \<le> k \<and> k < j \<and> p k" by simp
      then show "\<exists>k. i + 1 \<le> k \<and> k < j \<and> p k" ..
    qed
    finally show ?thesis .
  next
    case False
    then show ?thesis
      by (subst anyInRange.simps) auto
  qed
qed

lemma column_has_color:
  assumes "\<And>x y. (frame x y = c) = (bx \<le> x \<and> x < bx + bw \<and> by \<le> y \<and> y < by + bh)"
    and "by \<le> ya" "ya < yb" "yb \<le> by + bh"
  shows "anyInRange (\<lambda>y. frame x y = c) ya yb = (bx \<le> x \<and> x < bx + bw)"
proof -
  have "(\<exists>k. ya \<le> k \<and> k < yb \<and> bx \<le> x \<and> x < bx + bw \<and> by \<le> k \<and> k < by + bh)
          = (bx \<le> x \<and> x < bx + bw)"
    using assms(2-4) by (intro iffI; (elim exE conjE)?) (simp, rule exI [of _ ya], simp)
  then show ?thesis
    by (simp add: anyInRange_iff assms(1))
qed

lemma row_has_color:
  assumes "\<And>x y. (frame x y = c) = (bx \<le> x \<and> x < bx + bw \<and> by \<le> y \<and> y < by + bh)"
    and "bx \<le> xa" "xa < xb" "xb \<le> bx + bw"
  shows "anyInRange (\<lambda>x. frame x y = c) xa xb = (by \<le> y \<and> y < by + bh)"
proof -
  have "(\<exists>k. xa \<le> k \<and> k < xb \<and> bx \<le> k \<and> k < bx + bw \<and> by \<le> y \<and> y < by + bh)
          = (by \<le> y \<and> y < by + bh)"
    using assms(2-4) by (intro iffI; (elim exE conjE)?) (simp, rule exI [of _ xa], simp)
  then show ?thesis
    by (simp add: anyInRange_iff assms(1))
qed

lemma growLeft_block:
  assumes solid: "\<And>x y. (frame x y = c) = (bx \<le> x \<and> x < bx + bw \<and> by \<le> y \<and> y < by + bh)"
    and "0 \<le> bx" "bx \<le> x0 r1" "x0 r1 \<le> bx + bw" "x0 r0 = x0 r1"
    and "by \<le> y0 r1" "y0 r1 < y1 r1" "y1 r1 \<le> by + bh"
  shows "growLeft frame c r0 r1 = r1\<lparr>x0 := max bx (x0 r1 - 1)\<rparr>"
proof -
  have t: "leftContainsColor frame (r1\<lparr>x0 := a\<rparr>) c = (bx \<le> a \<and> a < bx + bw)" for a
    using column_has_color [OF solid, of "y0 r1" "y1 r1" a] assms(6-8)
    by (simp add: leftContainsColor_def)
  show ?thesis
    using assms(2-5) by (auto simp add: growLeft_def Let_def t)
qed

lemma growTop_block:
  assumes solid: "\<And>x y. (frame x y = c) = (bx \<le> x \<and> x < bx + bw \<and> by \<le> y \<and> y < by + bh)"
    and "0 \<le> by" "by \<le> y0 r1" "y0 r1 \<le> by + bh" "y0 r0 = y0 r1"
    and "bx \<le> x0 r1" "x0 r1 < x1 r1" "x1 r1 \<le> bx + bw"
  shows "growTop frame c r0 r1 = r1\<lparr>y0 := max by (y0 r1 - 1)\<rparr>"
proof -
  have t: "topContainsColor frame (r1\<lparr>y0 := a\<rparr>) c = (by \<le> a \<and> a < by + bh)" for a
    using row_has_color [OF solid, of "x0 r1" "x1 r1" a] assms(6-8)
    by (simp add: topContainsColor_def)
  show ?thesis
    using assms(2-5) by (auto simp add: growTop_def Let_def t)
qed

lemma growRight_block:
  assumes solid: "\<And>x y. (frame x y = c) = (bx \<le> x \<and> x < bx + bw \<and> by \<le> y \<and> y < by + bh)"
    and "bx + bw \<le> w" "bx \<le> x1 r1" "x1 r1 \<le> bx + bw - 1" "x1 r0 = x1 r1"
    and "by \<le> y0 r1" "y0 r1 < y1 r1" "y1 r1 \<le> by + bh"
  shows "growRight w frame c r0 r1 = r1\<lparr>x1 := min (bx + bw - 1) (x1 r1 + 1)\<rparr>"
proof -
  have t: "rightContainsColor frame (r1\<lparr>x1 := a\<rparr>) c = (bx \<le> a \<and> a < bx + bw)" for a
    using column_has_color [OF solid, of "y0 r1" "y1 r1" a] assms(6-8)
    by (simp add: rightContainsColor_def)
  show ?thesis
    using assms(2-5) by (auto simp add: growRight_def Let_def t)
qed

lemma growBottom_block:
  assumes solid: "\<And>x y. (frame x y = c) = (bx \<le> x \<and> x < bx + bw \<and> by \<le> y \<and> y < by + bh)"
    and "by + bh \<le> h" "by \<le> y1 r1" "y1 r1 \<le> by + bh - 1" "y1 r0 = y1 r1"
    and "bx \<le> x0 r1" "x0 r1 < x1 r1" "x1 r1 \<le> bx + bw"
  shows "growBottom h frame c r0 r1 = r1\<lparr>y1 := min (by + bh - 1) (y1 r1 + 1)\<rparr>"
proof -
  have t: "bottomContainsColor frame (r1\<lparr>y1 := a\<rparr>) c = (by \<le> a \<and> a < by + bh)" for a
    using row_has_color [OF solid, of "x0 r1" "x1 r1" a] assms(6-8)
    by (simp add: bottomContainsColor_def)
  show ?thesis
    using assms(2-5) by (auto simp add: growBottom_def Let_def t)
qed

text \<open>
  On a solid block, one iteration of the loop moves every side by one towards the
  block's first column and row and towards its \<^emph>\<open>last\<close> column and row.
\<close>

lemma growOnce_block:
  assumes solid: "\<And>x y. (frame x y = c) = (bx \<le> x \<and> x < bx + bw \<and> by \<le> y \<and> y < by + bh)"
    and scr: "0 \<le> bx" "bx + bw \<le> w" "0 \<le> by" "by + bh \<le> h"
    and inv: "growsWithin bx by bw bh r"
  shows "growOnce w h frame c r =
           r\<lparr>x0 := max bx (x0 r - 1), y0 := max by (y0 r - 1),
             x1 := min (bx + bw - 1) (x1 r + 1), y1 := min (by + bh - 1) (y1 r + 1)\<rparr>"
proof -
  let ?a = "r\<lparr>x0 := max bx (x0 r - 1)\<rparr>"
  let ?b = "?a\<lparr>y0 := max by (y0 r - 1)\<rparr>"
  let ?c = "?b\<lparr>x1 := min (bx + bw - 1) (x1 r + 1)\<rparr>"
  let ?d = "?c\<lparr>y1 := min (by + bh - 1) (y1 r + 1)\<rparr>"
  have i: "bx \<le> x0 r" "x0 r < x1 r" "x1 r \<le> bx + bw - 1"
    "by \<le> y0 r" "y0 r < y1 r" "y1 r \<le> by + bh - 1"
    using inv by (simp_all add: growsWithin_def)
  have a: "growLeft frame c r r = ?a"
    using i scr by (intro growLeft_block [OF solid]) simp_all
  have "growTop frame c r ?a = ?a\<lparr>y0 := max by (y0 ?a - 1)\<rparr>"
    using i scr by (intro growTop_block [OF solid]) auto
  then have b: "growTop frame c r ?a = ?b"
    by simp
  have "growRight w frame c r ?b = ?b\<lparr>x1 := min (bx + bw - 1) (x1 ?b + 1)\<rparr>"
    using i scr by (intro growRight_block [OF solid]) auto
  then have c: "growRight w frame c r ?b = ?c"
    by simp
  have "growBottom h frame c r ?c = ?c\<lparr>y1 := min (by + bh - 1) (y1 ?c + 1)\<rparr>"
    using i scr by (intro growBottom_block [OF solid]) auto
  then have d: "growBottom h frame c r ?c = ?d"
    by simp
  show ?thesis
    by (simp add: growOnce_def a b c d)
qed

lemma growOnce_block_within:
  assumes solid: "\<And>x y. (frame x y = c) = (bx \<le> x \<and> x < bx + bw \<and> by \<le> y \<and> y < by + bh)"
    and scr: "0 \<le> bx" "bx + bw \<le> w" "0 \<le> by" "by + bh \<le> h"
    and inv: "growsWithin bx by bw bh r"
  shows "growsWithin bx by bw bh (growOnce w h frame c r)"
  using inv unfolding growOnce_block [OF solid scr inv]
  by (auto simp add: growsWithin_def)

lemma growOnce_block_fixed:
  assumes solid: "\<And>x y. (frame x y = c) = (bx \<le> x \<and> x < bx + bw \<and> by \<le> y \<and> y < by + bh)"
    and scr: "0 \<le> bx" "bx + bw \<le> w" "0 \<le> by" "by + bh \<le> h"
    and inv: "growsWithin bx by bw bh r"
    and fixed: "growOnce w h frame c r = r"
  shows "r = \<lparr>x0 = bx, y0 = by, x1 = bx + bw - 1, y1 = by + bh - 1\<rparr>"
proof -
  have "x0 (growOnce w h frame c r) = x0 r" "y0 (growOnce w h frame c r) = y0 r"
    "x1 (growOnce w h frame c r) = x1 r" "y1 (growOnce w h frame c r) = y1 r"
    using fixed by simp_all
  then have "max bx (x0 r - 1) = x0 r" "max by (y0 r - 1) = y0 r"
    "min (bx + bw - 1) (x1 r + 1) = x1 r" "min (by + bh - 1) (y1 r + 1) = y1 r"
    unfolding growOnce_block [OF solid scr inv] by simp_all
  then have "x0 r = bx" "y0 r = by" "x1 r = bx + bw - 1" "y1 r = by + bh - 1"
    by (simp_all add: max_def min_def split: if_splits)
  then show ?thesis by simp
qed

lemma findColorBoundsLoop_block:
  assumes solid: "\<And>x y. (frame x y = c) = (bx \<le> x \<and> x < bx + bw \<and> by \<le> y \<and> y < by + bh)"
    and scr: "0 \<le> bx" "bx + bw \<le> w" "0 \<le> by" "by + bh \<le> h"
    and inv: "growsWithin bx by bw bh r"
  shows "findColorBoundsLoop w h frame c r = \<lparr>x0 = bx, y0 = by, x1 = bx + bw - 1, y1 = by + bh - 1\<rparr>"
  using assms
proof (induction w h frame c r rule: findColorBoundsLoop.induct)
  case (1 w h frame c r0)
  note solid = "1.prems"(1) and scr = "1.prems"(2-5) and inv = "1.prems"(6)
  let ?r1 = "growOnce w h frame c r0"
  show ?case
  proof (cases "r0 = ?r1")
    case True
    then have "findColorBoundsLoop w h frame c r0 = r0"
      by (subst findColorBoundsLoop.simps) (simp add: Let_def)
    moreover have "r0 = \<lparr>x0 = bx, y0 = by, x1 = bx + bw - 1, y1 = by + bh - 1\<rparr>"
      using True by (intro growOnce_block_fixed [OF solid scr inv]) simp
    ultimately show ?thesis by simp
  next
    case False
    then have "findColorBoundsLoop w h frame c r0 = findColorBoundsLoop w h frame c ?r1"
      by (subst findColorBoundsLoop.simps) (simp add: Let_def)
    moreover have "findColorBoundsLoop w h frame c ?r1
        = \<lparr>x0 = bx, y0 = by, x1 = bx + bw - 1, y1 = by + bh - 1\<rparr>"
      using "1.IH" [OF refl False solid scr growOnce_block_within [OF solid scr inv]] .
    ultimately show ?thesis by simp
  qed
qed

lemma blockFrame_solid:
  "(blockFrame c bx by bw bh x y = c) = (bx \<le> x \<and> x < bx + bw \<and> by \<le> y \<and> y < by + bh)"
  by (simp add: blockFrame_def)

text \<open>
  Claim C3 as stated (from every 1 by 1 seed inside the block the finder converges to
  exactly the block's bounds and reports a change) fails: the rectangle the finder
  converges to depends on the seed.  For the 3 by 3 block with corners \<open>(2, 2)\<close> and
  \<open>(4, 4)\<close> the seed at \<open>(3, 3)\<close> gives \<open>(2, 2, 4, 4)\<close>, where \<open>x1\<close> and \<open>y1\<close> are the last column
  and row of the block, and the seed at \<open>(4, 4)\<close> gives \<open>(2, 2, 5, 5)\<close>; and on a 1 by 1
  block the seed is returned unchanged, with the result false.
\<close>

theorem findColorBounds_seed_dependent:
  "findColorBounds 8 8 (blockFrame ballColor 2 2 3 3) \<lparr>x0 = 3, y0 = 3, x1 = 4, y1 = 4\<rparr> ballColor
     = (True, \<lparr>x0 = 2, y0 = 2, x1 = 4, y1 = 4\<rparr>)
   \<and> findColorBounds 8 8 (blockFrame ballColor 2 2 3 3) \<lparr>x0 = 4, y0 = 4, x1 = 5, y1 = 5\<rparr> ballColor
     = (True, \<lparr>x0 = 2, y0 = 2, x1 = 5, y1 = 5\<rparr>)
   \<and> findColorBounds 8 8 (blockFrame ballColor 2 2 1 1) \<lparr>x0 = 2, y0 = 2, x1 = 3, y1 = 3\<rparr> ballColor
     = (False, \<lparr>x0 = 2, y0 = 2, x1 = 3, y1 = 3\<rparr>)"
  by (simp add: detector_eval blockFrame_def ballColor_value)

text \<open>
  Claim C3, amended: in a frame where exactly the pixels of a block inside the screen
  have the target color, the finder run from the 1 by 1 seed rectangle
  \<open>(sx, sy, sx + 1, sy + 1)\<close> of a block pixel that is not in the last column or the last
  row of the block converges to \<open>(bx, by, bx + bw - 1, by + bh - 1)\<close>, whose \<open>x1\<close> and \<open>y1\<close>
  are the last column and row of the block, and returns true unless the seed rectangle
  is that rectangle already (a 2 by 2 block seeded at its top-left pixel); run again
  from the converged rectangle it returns false and the same rectangle.
\<close>

theorem findColorBounds_solid_block:
  assumes solid: "\<And>x y. (frame x y = c) = (bx \<le> x \<and> x < bx + bw \<and> by \<le> y \<and> y < by + bh)"
    and scr: "0 \<le> bx" "bx + bw \<le> w" "0 \<le> by" "by + bh \<le> h"
    and seed: "bx \<le> sx" "sx < bx + bw - 1" "by \<le> sy" "sy < by + bh - 1"
  shows "findColorBounds w h frame \<lparr>x0 = sx, y0 = sy, x1 = sx + 1, y1 = sy + 1\<rparr> c
           = (\<not> (bw = 2 \<and> bh = 2 \<and> sx = bx \<and> sy = by),
              \<lparr>x0 = bx, y0 = by, x1 = bx + bw - 1, y1 = by + bh - 1\<rparr>)
       \<and> findColorBounds w h frame \<lparr>x0 = bx, y0 = by, x1 = bx + bw - 1, y1 = by + bh - 1\<rparr> c
           = (False, \<lparr>x0 = bx, y0 = by, x1 = bx + bw - 1, y1 = by + bh - 1\<rparr>)"
proof -
  let ?seed = "\<lparr>x0 = sx, y0 = sy, x1 = sx + 1, y1 = sy + 1\<rparr>"
  let ?t = "\<lparr>x0 = bx, y0 = by, x1 = bx + bw - 1, y1 = by + bh - 1\<rparr>"
  have "growsWithin bx by bw bh ?seed"
    using seed by (simp add: growsWithin_def)
  then have a: "findColorBoundsLoop w h frame c ?seed = ?t"
    by (rule findColorBoundsLoop_block [OF solid scr])
  have "growsWithin bx by bw bh ?t"
    using seed by (simp add: growsWithin_def)
  then have b: "findColorBoundsLoop w h frame c ?t = ?t"
    by (rule findColorBoundsLoop_block [OF solid scr])
  have c: "(?seed \<noteq> ?t) = (\<not> (bw = 2 \<and> bh = 2 \<and> sx = bx \<and> sy = by))"
    by auto
  show ?thesis
    using c by (simp add: findColorBounds_def Let_def a b del: Rect.ext_inject)
qed

theorem findColorBounds_solid_block_witness:
  "findColorBounds 8 8 (blockFrame ballColor 2 2 3 3) \<lparr>x0 = 3, y0 = 3, x1 = 4, y1 = 4\<rparr> ballColor
     = (True, \<lparr>x0 = 2, y0 = 2, x1 = 4, y1 = 4\<rparr>)
   \<and> findColorBounds 8 8 (blockFrame ballColor 2 2 3 3) \<lparr>x0 = 2, y0 = 2, x1 = 4, y1 = 4\<rparr> ballColor
     = (False, \<lparr>x0 = 2, y0 = 2, x1 = 4, y1 = 4\<rparr>)"
  using findColorBounds_solid_block [of "blockFrame ballColor 2 2 3 3" ballColor 2 3 2 3 8 8 3 3,
      OF blockFrame_solid]
  by simp

section \<open>The ball detector\<close>

lemma checkForBall_diamond:
  "checkForBall 100 100 (diamondFrame p q) 50 47 b = (True, \<lparr>x0 = 47, y0 = 47, x1 = 53, y1 = 53\<rparr>)"
  by (simp add: detector_eval diamondFrame_def ballColor_value)

text \<open>
  Claim C4: \<open>checkForBall\<close> returns true iff the pixel at \<open>(x, y)\<close> has the ball color, the
  region finder run from the 1 by 1 seed at \<open>(x, y)\<close> reports a changed rectangle, and that
  rectangle is more than 4 wide and high, is square, has ball-colored pixels at the four
  edge midpoints one pixel inset and pixels of another color at its four corners; the
  rectangle it then yields is the one the region finder found.
\<close>

theorem checkForBall_contract:
  "fst (checkForBall w h frame x y b)
     = (frame x y = ballColor
        \<and> (let r = snd (findColorBounds w h frame \<lparr>x0 = x, y0 = y, x1 = x + 1, y1 = y + 1\<rparr> ballColor)
           in fst (findColorBounds w h frame \<lparr>x0 = x, y0 = y, x1 = x + 1, y1 = y + 1\<rparr> ballColor)
            \<and> width r > 4 \<and> height r > 4 \<and> width r = height r
            \<and> frame (x0 r + width r div 2) (y0 r + 1) = ballColor
            \<and> frame (x0 r + width r div 2) (y1 r - 1) = ballColor
            \<and> frame (x0 r + 1) (y0 r + height r div 2) = ballColor
            \<and> frame (x1 r - 1) (y0 r + height r div 2) = ballColor
            \<and> frame (x0 r) (y0 r) \<noteq> ballColor
            \<and> frame (x1 r) (y0 r) \<noteq> ballColor
            \<and> frame (x0 r) (y1 r) \<noteq> ballColor
            \<and> frame (x1 r) (y1 r) \<noteq> ballColor))
   \<and> (fst (checkForBall w h frame x y b) \<longrightarrow>
        snd (checkForBall w h frame x y b)
          = snd (findColorBounds w h frame \<lparr>x0 = x, y0 = y, x1 = x + 1, y1 = y + 1\<rparr> ballColor))"
  by (auto simp add: checkForBall_def Let_def cdiv2_def split: prod.splits)

theorem checkForBall_contract_witness:
  "fst (checkForBall 100 100 (diamondFrame 0 0) 50 47 \<lparr>x0 = 0, y0 = 0, x1 = 0, y1 = 0\<rparr>)
   \<and> snd (findColorBounds 100 100 (diamondFrame 0 0) \<lparr>x0 = 50, y0 = 47, x1 = 51, y1 = 48\<rparr> ballColor)
        = \<lparr>x0 = 47, y0 = 47, x1 = 53, y1 = 53\<rparr>
   \<and> \<not> fst (checkForBall 100 100 (diamondFrame 0 0) 50 46 \<lparr>x0 = 0, y0 = 0, x1 = 0, y1 = 0\<rparr>)"
  using checkForBall_contract [of 100 100 "diamondFrame 0 0" 50 47 "\<lparr>x0 = 0, y0 = 0, x1 = 0, y1 = 0\<rparr>"]
    checkForBall_contract [of 100 100 "diamondFrame 0 0" 50 46 "\<lparr>x0 = 0, y0 = 0, x1 = 0, y1 = 0\<rparr>"]
    checkForBall_diamond [of 0 0 "\<lparr>x0 = 0, y0 = 0, x1 = 0, y1 = 0\<rparr>"]
  by (simp add: diamondFrame_def ballColor_value)

section \<open>Frames without a ball\<close>

lemma checkForBall_other_color:
  "frame x y \<noteq> ballColor \<Longrightarrow> checkForBall w h frame x y b = (False, b)"
  by (simp add: checkForBall_def)

lemma reacquire_no_ball_color:
  assumes "\<And>x y. frame x y \<noteq> ballColor"
  shows "reacquire w h frame b = (False, b)"
  by (simp add: reacquire_def checkForBall_other_color [OF assms])

lemma scanRow_row_without_ball_color:
  "(\<And>x'. frame x' y \<noteq> ballColor) \<Longrightarrow> scanRow w h frame bl zone y x b = (False, b)"
proof (induction w h frame bl zone y x b rule: scanRow.induct)
  case (1 w h frame bl zone y x b)
  have c: "checkForBall w h frame x y b = (False, b)"
    using "1.prems" by (simp add: checkForBall_other_color)
  show ?case
  proof (cases "x < x1 zone")
    case True
    then show ?thesis
      using "1.prems" "1.IH"(1) [of False b] "1.IH"(2) c
      by (subst scanRow.simps) simp
  next
    case False
    then show ?thesis by (subst scanRow.simps) simp
  qed
qed

lemma scanZone_no_ball_color:
  "(\<And>x y. frame x y \<noteq> ballColor) \<Longrightarrow> scanZone w h frame bl zone y b = (False, b)"
proof (induction w h frame bl zone y b rule: scanZone.induct)
  case (1 w h frame bl zone y b)
  have c: "scanRow w h frame bl zone y (x0 zone) b = (False, b)"
    using "1.prems" by (intro scanRow_row_without_ball_color) simp
  show ?case
  proof (cases "y < y1 zone")
    case True
    then show ?thesis
      using "1.prems" "1.IH" [of False b] c
      by (subst scanZone.simps) simp
  next
    case False
    then show ?thesis by (subst scanZone.simps) simp
  qed
qed

lemma findBall_no_ball_color:
  assumes "\<And>x y. frame x y \<noteq> ballColor"
  shows "findBall g frame zone t = (False, g)"
  by (simp add: findBall_def reacquire_no_ball_color [OF assms] scanZone_no_ball_color [OF assms])

lemma blankFrame_no_ball_color: "blankFrame x y \<noteq> ballColor"
  by (simp add: blankFrame_def ballColor_value)

section \<open>What \<open>findBall\<close> changes\<close>

lemma findBall_False: "\<not> fst (findBall g frame zone t) \<Longrightarrow> findBall g frame zone t = (False, g)"
  by (auto simp add: findBall_def split: prod.splits bool.splits)

lemma findBall_keeps:
  "widthG (snd (findBall g frame zone t)) = widthG g"
  "heightG (snd (findBall g frame zone t)) = heightG g"
  "field (snd (findBall g frame zone t)) = field g"
  "frameCount (snd (findBall g frame zone t)) = frameCount g"
  "lastFire (snd (findBall g frame zone t)) = lastFire g"
  "deadzoneFrames (snd (findBall g frame zone t)) = deadzoneFrames g"
  "ignoredCount (snd (findBall g frame zone t)) = ignoredCount g"
  "hasFired (snd (findBall g frame zone t)) = hasFired g"
  by (simp_all add: findBall_def split: prod.splits bool.splits)



text \<open>
  Claim C10: \<open>findBall\<close> returns false exactly when the re-acquisition at the four edge
  midpoints and the grid scan over the zone both fail, and then the tracked ball
  rectangle and the last-seen and last-moved timestamps (indeed the whole state) are as
  before the call.
\<close>

theorem findBall_failure_frame:
  "fst (findBall g frame zone t)
     = (fst (reacquire (widthG g) (heightG g) frame (ball g))
        \<or> fst (scanZone (widthG g) (heightG g) frame (ball g) zone (y0 zone) (ball g)))
   \<and> (\<not> fst (findBall g frame zone t) \<longrightarrow>
        ball (snd (findBall g frame zone t)) = ball g
        \<and> lastBall (snd (findBall g frame zone t)) = lastBall g
        \<and> lastBallMove (snd (findBall g frame zone t)) = lastBallMove g
        \<and> snd (findBall g frame zone t) = g)"
  by (auto simp add: findBall_def split: prod.splits bool.splits)

theorem findBall_failure_frame_witness:
  "\<not> fst (findBall idleGame blankFrame (field idleGame) 5)
   \<and> ball (snd (findBall idleGame blankFrame (field idleGame) 5)) = ball idleGame
   \<and> lastBall (snd (findBall idleGame blankFrame (field idleGame) 5)) = lastBall idleGame
   \<and> lastBallMove (snd (findBall idleGame blankFrame (field idleGame) 5)) = lastBallMove idleGame"
  using findBall_failure_frame [of idleGame blankFrame "field idleGame" 5]
    findBall_no_ball_color [of blankFrame idleGame "field idleGame" 5, OF blankFrame_no_ball_color]
  by simp

section \<open>Steps that find no ball\<close>


lemma step_bootstrap_no_ball:
  assumes "\<not> haveField g"
    "\<not> fst (findBall g frame \<lparr>x0 = 0, y0 = 0, x1 = widthG g, y1 = heightG g\<rparr> tf)"
  shows "step g frame tf ts =
     (if x1 (field g) = 0
      then (False, g\<lparr>frameCount := frameCount g + 1\<rparr>, [SavePng ''no-ball-proof.png''])
      else if field g = ball g
      then (True, g\<lparr>field := snd (expand (widthG g) (heightG g) (field g)),
                     frameCount := frameCount g + 1\<rparr>,
            [Focus (centerX (ball g)) (centerY (ball g)), Fire])
      else (True, g\<lparr>frameCount := frameCount g + 1\<rparr>, []))"
  using assms by (simp add: step_def stepBootstrap_def expandField_def findBall_False)

text \<open>
  The state \<open>idleGame\<close> is the one a fresh game is in after its first step on the frame
  of the diamond: the grid scan finds no ball-colored pixel in the rows above the
  diamond and meets its top pixel \<open>(50, 47)\<close> in row 47.
\<close>

lemma diamondFrame_upper_rows: "y < 47 \<Longrightarrow> diamondFrame 0 0 x y \<noteq> ballColor"
  by (auto simp add: diamondFrame_def ballColor_value)

lemma scanRow_diamond_upper_rows:
  "y < 47 \<Longrightarrow> scanRow w h (diamondFrame 0 0) bl zone y x b = (False, b)"
  by (rule scanRow_row_without_ball_color) (rule diamondFrame_upper_rows)

lemma scanRow_diamond_row47:
  "scanRow 100 100 (diamondFrame 0 0) \<lparr>x0 = 0, y0 = 0, x1 = 0, y1 = 0\<rparr>
     \<lparr>x0 = 0, y0 = 0, x1 = 100, y1 = 100\<rparr> 47 0 \<lparr>x0 = 0, y0 = 0, x1 = 0, y1 = 0\<rparr>
   = (True, \<lparr>x0 = 47, y0 = 47, x1 = 53, y1 = 53\<rparr>)"
  by (simp add: scanRow.simps contains_def detector_eval diamondFrame_def ballColor_value)

lemma idleGame_reached:
  "step (newGame 100 100 1 0 0) (diamondFrame 0 0) 0 0 = (True, idleGame, [])"
  by (simp add: step_def stepBootstrap_def expandField_def findBall_def reacquire_def haveField_def
      newGame_def idleGame_def scanZone.simps scanRow_diamond_upper_rows scanRow_diamond_row47
      centerX_def centerY_def checkForBall_other_color width_def height_def cdiv2_def
      diamondFrame_def ballColor_value)

text \<open>
  Claim C5 as stated fails in its second half: when no ball is found and the field
  equals the tracked ball rectangle (the state after the first sighting), \<^verbatim>\<open>step\<close> takes
  the start-of-game transition, which tests only that the field did not change and
  equals the ball: it dispatches a focus and an activate signal and expands the field by
  one pixel, so the state changes in more than the frame counter.  The state is the one
  of a fresh game after a first step that saw the diamond, and the frame is a blank one.
\<close>

theorem bootstrap_no_ball_idle_screen:
  "step (newGame 100 100 1 0 0) (diamondFrame 0 0) 0 0 = (True, idleGame, [])
   \<and> \<not> haveField idleGame
   \<and> \<not> fst (findBall idleGame blankFrame \<lparr>x0 = 0, y0 = 0, x1 = widthG idleGame, y1 = heightG idleGame\<rparr> 5)
   \<and> x1 (field idleGame) \<noteq> 0
   \<and> step idleGame blankFrame 5 5
       = (True, idleGame\<lparr>field := \<lparr>x0 = 46, y0 = 46, x1 = 54, y1 = 54\<rparr>, frameCount := 2\<rparr>,
          [Focus 50 50, Fire])"
proof -
  have nf: "\<not> haveField idleGame"
    by (simp add: haveField_def idleGame_def newGame_def width_def height_def)
  have nb: "\<not> fst (findBall idleGame blankFrame
              \<lparr>x0 = 0, y0 = 0, x1 = widthG idleGame, y1 = heightG idleGame\<rparr> 5)"
    by (simp add: findBall_no_ball_color [OF blankFrame_no_ball_color])
  have st: "step idleGame blankFrame 5 5
       = (True, idleGame\<lparr>field := \<lparr>x0 = 46, y0 = 46, x1 = 54, y1 = 54\<rparr>, frameCount := 2\<rparr>,
          [Focus 50 50, Fire])"
    unfolding step_bootstrap_no_ball [OF nf nb]
    by (simp add: idleGame_def newGame_def expand_def limit_def Let_def centerX_def centerY_def
        width_def height_def cdiv2_def)
  have x: "x1 (field idleGame) \<noteq> 0"
    by (simp add: idleGame_def newGame_def)
  show ?thesis
    using nf nb st x idleGame_reached by simp
qed

text \<open>
  Claim C5, amended: during bootstrap (\<open>haveField\<close> is false), if a step finds no ball and
  the field's \<open>x1\<close> is still 0, the step requests the diagnostic image dump and returns
  false; if a step finds no ball and the field's \<open>x1\<close> is not 0, the step returns true,
  and it leaves the state unchanged except for the frame counter, and dispatches
  nothing, when the field differs from the tracked ball rectangle.
\<close>

theorem bootstrap_no_ball:
  assumes "\<not> haveField g"
    "\<not> fst (findBall g frame \<lparr>x0 = 0, y0 = 0, x1 = widthG g, y1 = heightG g\<rparr> tf)"
  shows "(x1 (field g) = 0 \<longrightarrow>
            step g frame tf ts
              = (False, g\<lparr>frameCount := frameCount g + 1\<rparr>, [SavePng ''no-ball-proof.png'']))
       \<and> (x1 (field g) \<noteq> 0 \<longrightarrow> fst (step g frame tf ts))
       \<and> (x1 (field g) \<noteq> 0 \<and> field g \<noteq> ball g \<longrightarrow>
            step g frame tf ts = (True, g\<lparr>frameCount := frameCount g + 1\<rparr>, []))"
  by (simp add: step_bootstrap_no_ball [OF assms])

theorem bootstrap_no_ball_witness:
  "step (newGame 100 100 1 0 0) blankFrame 5 5
     = (False, (newGame 100 100 1 0 0)\<lparr>frameCount := 1\<rparr>, [SavePng ''no-ball-proof.png''])
   \<and> step (idleGame\<lparr>field := \<lparr>x0 = 40, y0 = 40, x1 = 60, y1 = 60\<rparr>\<rparr>) blankFrame 5 5
     = (True, idleGame\<lparr>field := \<lparr>x0 = 40, y0 = 40, x1 = 60, y1 = 60\<rparr>, frameCount := 2\<rparr>, [])"
proof -
  let ?g = "newGame 100 100 1 0 0"
  let ?k = "idleGame\<lparr>field := \<lparr>x0 = 40, y0 = 40, x1 = 60, y1 = 60\<rparr>\<rparr>"
  have a: "\<not> haveField ?g"
    by (simp add: haveField_def newGame_def width_def height_def)
  have b: "\<not> haveField ?k"
    by (simp add: haveField_def idleGame_def newGame_def width_def height_def)
  have c: "\<not> fst (findBall g blankFrame z 5)" for g z
    by (simp add: findBall_no_ball_color [OF blankFrame_no_ball_color])
  show ?thesis
    using bootstrap_no_ball [OF a c, of 5] bootstrap_no_ball [OF b c, of 5]
    by (simp add: idleGame_def newGame_def)
qed



section \<open>The probe box of the active step\<close>

lemma findBall_diamond:
  "findBall activeGame (diamondFrame p q) zone t = (True, activeGame\<lparr>lastBall := t\<rparr>)"
  by (simp add: findBall_def reacquire_def activeGame_def newGame_def centerX_def width_def cdiv2_def
      checkForBall_diamond)

lemma haveField_activeGame: "haveField activeGame"
  by (simp add: haveField_def activeGame_def newGame_def width_def height_def)

lemma step_active_found:
  assumes "haveField g" "findBall g frame (field g) tf = (True, g1)"
  shows "step g frame tf ts =
     (let s = isBallSurrounded (widthG g) (heightG g) frame
                (snd (expand (widthG g) (heightG g) (ball g1)));
          g3 = (if s then (if \<not> hasFired g1 then (fst (snd (fire g1)))\<lparr>hasFired := fst (fire g1)\<rparr> else g1)
                else g1\<lparr>hasFired := False\<rparr>);
          ev = (if s \<and> \<not> hasFired g1 then snd (snd (fire g1)) else [])
      in (ts - lastBallMove g3 < 2, g3\<lparr>frameCount := frameCount g3 + 1\<rparr>, ev))"
proof -
  have k: "widthG g1 = widthG g" "heightG g1 = heightG g"
    using findBall_keeps(1,2) [of g frame "field g" tf] assms(2) by simp_all
  show ?thesis
    using assms k by (simp add: step_def stepActive_def Let_def split: prod.splits)
qed

lemma expand_eval:
  "snd (expand 100 100 \<lparr>x0 = 47, y0 = 47, x1 = 53, y1 = 53\<rparr>) = \<lparr>x0 = 46, y0 = 46, x1 = 54, y1 = 54\<rparr>"
  "snd (expand 100 100 \<lparr>x0 = 46, y0 = 46, x1 = 54, y1 = 54\<rparr>) = \<lparr>x0 = 45, y0 = 45, x1 = 55, y1 = 55\<rparr>"
  "snd (expand 100 100 \<lparr>x0 = 45, y0 = 45, x1 = 55, y1 = 55\<rparr>) = \<lparr>x0 = 44, y0 = 44, x1 = 56, y1 = 56\<rparr>"
  "snd (expand 100 100 \<lparr>x0 = 44, y0 = 44, x1 = 56, y1 = 56\<rparr>) = \<lparr>x0 = 43, y0 = 43, x1 = 57, y1 = 57\<rparr>"
  by (simp_all add: expand_def limit_def Let_def)

lemma step_activeGame_diamond:
  "snd (snd (step activeGame (diamondFrame p q) 100 100)) = (if p \<noteq> fieldColor then [Fire] else [])"
  unfolding step_active_found [OF haveField_activeGame findBall_diamond]
  by (simp add: Let_def isBallSurrounded_def activeGame_def newGame_def expand_eval fire_def
      centerX_def centerY_def width_def height_def cdiv2_def diamondFrame_def fieldColor_value)

lemma activeGame_fields:
  "widthG activeGame = 100" "heightG activeGame = 100"
  "ball (activeGame\<lparr>lastBall := t\<rparr>) = \<lparr>x0 = 47, y0 = 47, x1 = 53, y1 = 53\<rparr>"
  "hasFired activeGame = False" "deadzoneFrames activeGame = 1"
  "frameCount activeGame = 10" "lastFire activeGame = 0"
  by (simp_all add: activeGame_def newGame_def)

text \<open>
  Claim C1 as stated (the probe box is the ball rectangle after exactly 3 expansions)
  fails: \<^verbatim>\<open>step\<close> expands the ball rectangle once into \<^verbatim>\<open>ballBox\<close> and
  \<^verbatim>\<open>isBallSurrounded\<close> expands that three more times.  For the diamond at \<open>(50, 50)\<close> with
  ball rectangle \<open>(47, 47, 53, 53)\<close>, three expansions give \<open>(44, 44, 56, 56)\<close> with top
  midpoint \<open>(50, 44)\<close>, while the code probes \<open>(50, 43)\<close>.  With a field-colored pixel at
  \<open>(50, 43)\<close> only, all four edge midpoints of the three-expansion box differ from the
  field color, yet the step does not fire; with a field-colored pixel at \<open>(50, 44)\<close> only,
  the top midpoint of the three-expansion box has the field color, yet the step fires.
\<close>

theorem probe_box_three_expansions:
  "haveField activeGame
   \<and> \<not> hasFired activeGame
   \<and> deadzoneFrames activeGame \<le> frameCount activeGame - lastFire activeGame
   \<and> findBall activeGame (diamondFrame fieldColor 0) (field activeGame) 100
        = (True, activeGame\<lparr>lastBall := 100\<rparr>)
   \<and> findBall activeGame (diamondFrame 0 fieldColor) (field activeGame) 100
        = (True, activeGame\<lparr>lastBall := 100\<rparr>)
   \<and> snd (expand 100 100 (snd (expand 100 100 (snd (expand 100 100 (ball activeGame))))))
        = \<lparr>x0 = 44, y0 = 44, x1 = 56, y1 = 56\<rparr>
   \<and> centerX \<lparr>x0 = 44, y0 = 44, x1 = 56, y1 = 56\<rparr> = 50
   \<and> centerY \<lparr>x0 = 44, y0 = 44, x1 = 56, y1 = 56\<rparr> = 50
   \<and> diamondFrame fieldColor 0 50 44 \<noteq> fieldColor
   \<and> diamondFrame fieldColor 0 50 56 \<noteq> fieldColor
   \<and> diamondFrame fieldColor 0 44 50 \<noteq> fieldColor
   \<and> diamondFrame fieldColor 0 56 50 \<noteq> fieldColor
   \<and> snd (snd (step activeGame (diamondFrame fieldColor 0) 100 100)) = []
   \<and> diamondFrame 0 fieldColor 50 44 = fieldColor
   \<and> snd (snd (step activeGame (diamondFrame 0 fieldColor) 100 100)) = [Fire]"
proof -
  have a: "snd (expand 100 100 (snd (expand 100 100 (snd (expand 100 100 (ball activeGame))))))
        = \<lparr>x0 = 44, y0 = 44, x1 = 56, y1 = 56\<rparr>"
    by (simp add: activeGame_def newGame_def expand_eval)
  have b: "\<not> hasFired activeGame"
    "deadzoneFrames activeGame \<le> frameCount activeGame - lastFire activeGame"
    by (simp_all add: activeGame_def newGame_def)
  have c: "diamondFrame fieldColor 0 50 44 \<noteq> fieldColor"
    "diamondFrame fieldColor 0 50 56 \<noteq> fieldColor"
    "diamondFrame fieldColor 0 44 50 \<noteq> fieldColor"
    "diamondFrame fieldColor 0 56 50 \<noteq> fieldColor"
    "diamondFrame 0 fieldColor 50 44 = fieldColor"
    by (simp_all add: diamondFrame_def fieldColor_value)
  have d: "centerX \<lparr>x0 = 44, y0 = 44, x1 = 56, y1 = 56\<rparr> = 50"
    "centerY \<lparr>x0 = 44, y0 = 44, x1 = 56, y1 = 56\<rparr> = 50"
    by (simp_all add: centerX_def centerY_def width_def height_def cdiv2_def)
  have e: "(0::32 word) \<noteq> fieldColor"
    by (simp add: fieldColor_value)
  show ?thesis
    using haveField_activeGame a b c d e
    by (simp add: findBall_diamond step_activeGame_diamond)
qed

text \<open>
  Claim C1, amended: in the active state, when the ball is found in a frame, the probe
  box is the ball rectangle after 4 one-pixel expansions clamped to the screen (one in
  \<^verbatim>\<open>step\<close>, three in \<^verbatim>\<open>isBallSurrounded\<close>), and the ball is judged surrounded iff the four
  edge-midpoint pixels of that box all differ from the field color: the step dispatches
  an activate signal iff the ball is surrounded, the fired flag was not set and the
  deadzone has elapsed, and it leaves the fired flag set iff the ball is surrounded and
  the flag was set or the signal was dispatched.
\<close>

theorem step_probe_box:
  assumes "haveField g" "findBall g frame (field g) tf = (True, g1)"
  shows "(let f = snd (expand (widthG g) (heightG g) (snd (expand (widthG g) (heightG g)
                    (snd (expand (widthG g) (heightG g) (snd (expand (widthG g) (heightG g) (ball g1))))))));
              surrounded = (frame (centerX f) (y0 f) \<noteq> fieldColor
                          \<and> frame (centerX f) (y1 f) \<noteq> fieldColor
                          \<and> frame (x0 f) (centerY f) \<noteq> fieldColor
                          \<and> frame (x1 f) (centerY f) \<noteq> fieldColor)
          in snd (snd (step g frame tf ts))
               = (if surrounded \<and> \<not> hasFired g \<and> deadzoneFrames g \<le> frameCount g - lastFire g
                  then [Fire] else [])
           \<and> hasFired (fst (snd (step g frame tf ts)))
               = (surrounded \<and> (hasFired g \<or> deadzoneFrames g \<le> frameCount g - lastFire g)))"
proof -
  have k: "hasFired g1 = hasFired g" "deadzoneFrames g1 = deadzoneFrames g"
    "frameCount g1 = frameCount g" "lastFire g1 = lastFire g"
    using findBall_keeps(4,5,6,8) [of g frame "field g" tf] assms(2) by simp_all
  show ?thesis
    unfolding step_active_found [OF assms]
    by (simp add: Let_def isBallSurrounded_def fire_def k)
qed

theorem step_probe_box_witness:
  "haveField activeGame
   \<and> fst (findBall activeGame (diamondFrame 0 0) (field activeGame) 100)
   \<and> snd (snd (step activeGame (diamondFrame 0 0) 100 100)) = [Fire]
   \<and> hasFired (fst (snd (step activeGame (diamondFrame 0 0) 100 100)))
   \<and> snd (snd (step activeGame (diamondFrame fieldColor 0) 100 100)) = []
   \<and> \<not> hasFired (fst (snd (step activeGame (diamondFrame fieldColor 0) 100 100)))"
proof -
  have f: "fst (findBall activeGame (diamondFrame 0 0) (field activeGame) 100)"
    by (simp add: findBall_diamond)
  show ?thesis
    using haveField_activeGame f
      step_probe_box [OF haveField_activeGame
        findBall_diamond [of 0 0 "field activeGame" 100], of 100]
      step_probe_box [OF haveField_activeGame
        findBall_diamond [of fieldColor 0 "field activeGame" 100], of 100]
    by (simp add: Let_def activeGame_fields expand_eval
        centerX_def centerY_def width_def height_def cdiv2_def diamondFrame_def fieldColor_value)
qed

end
